theory Spec2Isabelle
  imports Main
begin

section \<open>The LTI 1.3 registration overlay state\<close>

text \<open>
  A shallow embedding of \<^verbatim>\<open>Lti1p3RegistrationOverlayState.ts\<close>: the overlay state type,
  the initializer \<^verbatim>\<open>initialOverlayStateFromInternalConfig\<close> and the twelve actions of the
  store built by \<^verbatim>\<open>createLti1p3RegistrationOverlayStore\<close>.

  Conventions of the embedding:
  \<^item> a property that may be \<^verbatim>\<open>undefined\<close> (or \<^verbatim>\<open>null\<close>) is an \<open>option\<close>, \<open>None\<close> standing
    for the missing value;
  \<^item> \<^verbatim>\<open>LtiScope\<close>, \<^verbatim>\<open>LtiPlacement\<close>, \<^verbatim>\<open>LtiMessageType\<close> and \<^verbatim>\<open>LtiPrivacyLevel\<close> are string
    types at run time and are compared with \<^verbatim>\<open>===\<close>, so they are \<open>string\<close> here;
  \<^item> a \<^verbatim>\<open>Record<LtiPlacement, ...>\<close> is a map from placement names to entries;
  \<^item> an object that is only iterated with \<^verbatim>\<open>Object.entries\<close> is the list of its entries in
    iteration order.
\<close>

subsection \<open>JavaScript operators and array methods used by the source\<close>

text \<open>
  \<^verbatim>\<open>Array.prototype.join\<close>, as ECMAScript defines it: walk the array from the left with a
  result string that starts empty, adding the separator before every element but the first.
\<close>

fun join_loop :: "string \<Rightarrow> string \<Rightarrow> nat \<Rightarrow> string list \<Rightarrow> string" where
  "join_loop sep R k [] = R"
| "join_loop sep R k (x # xs) =
     join_loop sep ((if 0 < k then R @ sep else R) @ x) (Suc k) xs"

definition join :: "string \<Rightarrow> string list \<Rightarrow> string" where
  "join sep xs = join_loop sep [] 0 xs"

text \<open>\<^verbatim>\<open>Array.prototype.includes\<close> on an array of strings.\<close>

fun array_includes :: "'a list \<Rightarrow> 'a \<Rightarrow> bool" where
  "array_includes [] x = False"
| "array_includes (y # ys) x = (if y = x then True else array_includes ys x)"

text \<open>The nullish coalescing operator \<^verbatim>\<open>a ?? b\<close>.\<close>

fun nullish :: "'a option \<Rightarrow> 'a \<Rightarrow> 'a" where
  "nullish (Some a) b = a"
| "nullish None b = b"

text \<open>
  Truthiness, as \<^verbatim>\<open>c ? a : b\<close> and \<^verbatim>\<open>!c\<close> read their operand: a missing value is falsy,
  the empty string is falsy, \<^verbatim>\<open>false\<close> is falsy; an object is always truthy.
\<close>

fun truthy_string :: "string option \<Rightarrow> bool" where
  "truthy_string None = False"
| "truthy_string (Some s) = (s \<noteq> [])"

fun truthy_bool :: "bool option \<Rightarrow> bool" where
  "truthy_bool None = False"
| "truthy_bool (Some b) = b"

subsection \<open>The overlay state\<close>

type_synonym LtiScope = string
type_synonym LtiPlacement = string
type_synonym LtiMessageType = string
type_synonym LtiPrivacyLevel = string

datatype JwkMethod = Public_jwk_url | Public_jwk

record launchSettings_obj =
  redirectURIs :: "string option"
  targetLinkURI :: "string option"
  openIDConnectInitiationURL :: "string option"
  JwkMethod :: "JwkMethod option"
  JwkURL :: "string option"
  Jwk :: "string option"
  domain :: "string option"
  customFields :: "string option"

record permissions_obj =
  scopes :: "LtiScope list option"

record data_sharing_obj =
  privacy_level :: "LtiPrivacyLevel option"

record placements_obj =
  placements :: "LtiPlacement list option"
  courseNavigationDefaultDisabled :: "bool option"

record override_uri_entry =
  message_type :: "LtiMessageType option"
  uri :: "string option"

record override_uris_obj =
  placements :: "LtiPlacement \<rightharpoonup> override_uri_entry"

record naming_entry =
  name :: "string option"

record naming_obj =
  nickname :: "string option"
  description :: "string option"
  notes' :: "string option"
  placements :: "LtiPlacement \<rightharpoonup> naming_entry"

record icon_entry =
  icon_url :: "string option"

record icons_obj =
  placements :: "LtiPlacement \<rightharpoonup> icon_entry"

record Lti1p3RegistrationOverlayState =
  launchSettings :: launchSettings_obj
  permissions :: permissions_obj
  data_sharing :: data_sharing_obj
  placements :: placements_obj
  override_uris :: override_uris_obj
  naming :: naming_obj
  icons :: icons_obj

subsection \<open>The base document\<close>

text \<open>
  Modelled from the spec: the declaration of \<^verbatim>\<open>InternalLtiConfiguration\<close> (imported from
  \<^verbatim>\<open>../model/internal_lti_configuration/InternalLtiConfiguration\<close>) is not among the sources.
  The fields are the ones the initializer reads. A field is optional where the spec calls it
  optional or where the initializer itself guards the read (\<^verbatim>\<open>redirect_uris?.\<close>,
  \<^verbatim>\<open>custom_fields ? ... : undefined\<close>, \<^verbatim>\<open>public_jwk_url ? ... : ...\<close>, \<^verbatim>\<open>p.url ?? ...\<close>).
  \<^verbatim>\<open>domain\<close>, \<^verbatim>\<open>scopes\<close> and \<^verbatim>\<open>privacy_level\<close>, which are only copied into optional properties
  of the state, are optional too; \<^verbatim>\<open>title\<close>, \<^verbatim>\<open>target_link_uri\<close> and \<^verbatim>\<open>oidc_initiation_url\<close>
  are plain strings. The custom fields are the entries of the mapping in iteration order.
  The structured public key is of an arbitrary type \<open>'jwk\<close>.
\<close>

record InternalPlacementConfiguration =
  placement :: LtiPlacement
  message_type :: "LtiMessageType option"
  url :: "string option"
  text' :: "string option"
  default :: "string option"
  icon_url :: "string option"

record 'jwk InternalLtiConfiguration =
  title :: string
  target_link_uri :: string
  oidc_initiation_url :: string
  redirect_uris :: "string list option"
  public_jwk_url :: "string option"
  public_jwk :: "'jwk option"
  domain :: "string option"
  custom_fields :: "(string \<times> string) list option"
  scopes :: "LtiScope list option"
  privacy_level :: "LtiPrivacyLevel option"
  placements :: "InternalPlacementConfiguration list"

subsection \<open>The initializer\<close>

text \<open>
  \<^verbatim>\<open>initialOverlayStateFromInternalConfig\<close>. \<^verbatim>\<open>JSON.stringify\<close> is a parameter (it maps a
  missing key to a missing string, which \<open>map_option\<close> does here). Each \<^verbatim>\<open>reduce\<close> is a
  \<open>foldl\<close> whose step stores one entry under the record's placement, as the assignment
  \<^verbatim>\<open>acc[p.placement] = ...\<close> does. The \<^verbatim>\<open>?? []\<close> after \<^verbatim>\<open>map\<close> and after the naming \<^verbatim>\<open>reduce\<close>
  never fires, since neither returns a missing value.
\<close>

definition customFields_step :: "string \<Rightarrow> string \<times> string \<Rightarrow> string" where
  "customFields_step acc = (\<lambda>(key, value). acc @ key @ ''='' @ value @ ''\<newline>'')"

definition override_uris_step ::
  "'jwk InternalLtiConfiguration \<Rightarrow> (LtiPlacement \<rightharpoonup> override_uri_entry) \<Rightarrow>
   InternalPlacementConfiguration \<Rightarrow> (LtiPlacement \<rightharpoonup> override_uri_entry)" where
  "override_uris_step internalConfig acc p =
     acc(placement p \<mapsto>
       \<lparr> override_uri_entry.message_type =
           Some (nullish (InternalPlacementConfiguration.message_type p) ''LtiResourceLinkRequest''),
         uri = Some (nullish (url p) (target_link_uri internalConfig)) \<rparr>)"

definition naming_step ::
  "'jwk InternalLtiConfiguration \<Rightarrow> (LtiPlacement \<rightharpoonup> naming_entry) \<Rightarrow>
   InternalPlacementConfiguration \<Rightarrow> (LtiPlacement \<rightharpoonup> naming_entry)" where
  "naming_step internalConfig acc p =
     acc(placement p \<mapsto> \<lparr> name = Some (nullish (text' p) (title internalConfig)) \<rparr>)"

definition icons_step ::
  "(LtiPlacement \<rightharpoonup> icon_entry) \<Rightarrow> InternalPlacementConfiguration \<Rightarrow>
   (LtiPlacement \<rightharpoonup> icon_entry)" where
  "icons_step acc p =
     acc(placement p \<mapsto> \<lparr> icon_entry.icon_url = InternalPlacementConfiguration.icon_url p \<rparr>)"

definition initialOverlayStateFromInternalConfig ::
  "('jwk \<Rightarrow> string) \<Rightarrow> 'jwk InternalLtiConfiguration \<Rightarrow> Lti1p3RegistrationOverlayState" where
  "initialOverlayStateFromInternalConfig JSON_stringify internalConfig =
     \<lparr> launchSettings =
         \<lparr> redirectURIs = map_option (join ''\<newline>'') (redirect_uris internalConfig),
           targetLinkURI = Some (target_link_uri internalConfig),
           openIDConnectInitiationURL = Some (oidc_initiation_url internalConfig),
           JwkMethod =
             Some (if truthy_string (public_jwk_url internalConfig)
                   then Public_jwk_url else Public_jwk),
           JwkURL = public_jwk_url internalConfig,
           Jwk = map_option JSON_stringify (public_jwk internalConfig),
           launchSettings_obj.domain = InternalLtiConfiguration.domain internalConfig,
           customFields =
             (case custom_fields internalConfig of
                Some entries \<Rightarrow> Some (foldl customFields_step [] entries)
              | None \<Rightarrow> None) \<rparr>,
       permissions =
         \<lparr> permissions_obj.scopes = InternalLtiConfiguration.scopes internalConfig \<rparr>,
       data_sharing =
         \<lparr> data_sharing_obj.privacy_level = InternalLtiConfiguration.privacy_level internalConfig \<rparr>,
       Lti1p3RegistrationOverlayState.placements =
         \<lparr> placements_obj.placements =
             Some (map placement (InternalLtiConfiguration.placements internalConfig)),
           courseNavigationDefaultDisabled =
             Some (case List.find (\<lambda>p. placement p = ''course_navigation'')
                          (InternalLtiConfiguration.placements internalConfig) of
                     Some p \<Rightarrow> default p = Some ''disabled''
                   | None \<Rightarrow> False) \<rparr>,
       override_uris =
         \<lparr> override_uris_obj.placements =
             foldl (override_uris_step internalConfig) Map.empty
               (InternalLtiConfiguration.placements internalConfig) \<rparr>,
       naming =
         \<lparr> nickname = Some (title internalConfig),
           description = Some [],
           notes' = Some [],
           naming_obj.placements =
             foldl (naming_step internalConfig) Map.empty
               (InternalLtiConfiguration.placements internalConfig) \<rparr>,
       icons =
         \<lparr> icons_obj.placements =
             foldl icons_step Map.empty
               (InternalLtiConfiguration.placements internalConfig) \<rparr> \<rparr>"

subsection \<open>The actions of the store\<close>

text \<open>
  The store object holds the snapshot under the key \<^verbatim>\<open>state\<close>. \<^verbatim>\<open>updateState f\<close> turns a
  function on snapshots into the function on the store object that \<^verbatim>\<open>set\<close> is called with.
\<close>

record fullState =
  state :: Lti1p3RegistrationOverlayState

definition stateFor :: "Lti1p3RegistrationOverlayState \<Rightarrow> fullState" where
  "stateFor s = \<lparr> state = s \<rparr>"

definition updateState ::
  "(Lti1p3RegistrationOverlayState \<Rightarrow> Lti1p3RegistrationOverlayState) \<Rightarrow> fullState \<Rightarrow> fullState" where
  "updateState f fullState = stateFor (f (state fullState))"

text \<open>
  \<^verbatim>\<open>updateLaunchSetting(key, value)\<close> is called with eight keys; a key together with its value
  (a \<^verbatim>\<open>string\<close>, or one of the two key-distribution methods) is one constructor here, named after
  the key. \<open>launchSettings_with\<close> is the object literal
  \<^verbatim>\<open>{...state.launchSettings, [key]: value}\<close>.
\<close>

datatype launchSetting =
    Key_redirectURIs string
  | Key_targetLinkURI string
  | Key_openIDConnectInitiationURL string
  | Key_JwkMethod JwkMethod
  | Key_JwkURL string
  | Key_Jwk string
  | Key_domain string
  | Key_customFields string

fun launchSettings_with :: "launchSetting \<Rightarrow> launchSettings_obj \<Rightarrow> launchSettings_obj" where
  "launchSettings_with (Key_redirectURIs v) ls = ls\<lparr> redirectURIs := Some v \<rparr>"
| "launchSettings_with (Key_targetLinkURI v) ls = ls\<lparr> targetLinkURI := Some v \<rparr>"
| "launchSettings_with (Key_openIDConnectInitiationURL v) ls =
     ls\<lparr> openIDConnectInitiationURL := Some v \<rparr>"
| "launchSettings_with (Key_JwkMethod v) ls = ls\<lparr> JwkMethod := Some v \<rparr>"
| "launchSettings_with (Key_JwkURL v) ls = ls\<lparr> JwkURL := Some v \<rparr>"
| "launchSettings_with (Key_Jwk v) ls = ls\<lparr> Jwk := Some v \<rparr>"
| "launchSettings_with (Key_domain v) ls = ls\<lparr> launchSettings_obj.domain := Some v \<rparr>"
| "launchSettings_with (Key_customFields v) ls = ls\<lparr> customFields := Some v \<rparr>"

definition updateLaunchSetting ::
  "launchSetting \<Rightarrow> Lti1p3RegistrationOverlayState \<Rightarrow> Lti1p3RegistrationOverlayState" where
  "updateLaunchSetting kv s =
     s\<lparr> launchSettings := launchSettings_with kv (launchSettings s) \<rparr>"

text \<open>
  \<^verbatim>\<open>toggleScope\<close> and \<^verbatim>\<open>togglePlacement\<close> run the same code on two lists:
  \<^verbatim>\<open>xs?.includes(x)\<close> is falsy on a missing list, \<^verbatim>\<open>xs.filter(s => s !== x)\<close> drops every
  occurrence of \<open>x\<close>, and \<^verbatim>\<open>[...(xs ?? []), x]\<close> appends \<open>x\<close> to the list, read as empty when
  missing.
\<close>

definition toggle_in_list :: "string \<Rightarrow> string list option \<Rightarrow> string list" where
  "toggle_in_list x updated =
     (if (case updated of Some xs \<Rightarrow> array_includes xs x | None \<Rightarrow> False)
      then filter (\<lambda>s. s \<noteq> x) (nullish updated [])
      else nullish updated [] @ [x])"

definition permissions_toggled :: "LtiScope \<Rightarrow> permissions_obj \<Rightarrow> permissions_obj" where
  "permissions_toggled scope perms =
     perms\<lparr> permissions_obj.scopes := Some (toggle_in_list scope (permissions_obj.scopes perms)) \<rparr>"

definition toggleScope ::
  "LtiScope \<Rightarrow> Lti1p3RegistrationOverlayState \<Rightarrow> Lti1p3RegistrationOverlayState" where
  "toggleScope scope s =
     s\<lparr> permissions := permissions_toggled scope (permissions s) \<rparr>"

definition data_sharing_with :: "LtiPrivacyLevel \<Rightarrow> data_sharing_obj \<Rightarrow> data_sharing_obj" where
  "data_sharing_with privacyLevel ds =
     ds\<lparr> data_sharing_obj.privacy_level := Some privacyLevel \<rparr>"

definition setPrivacyLevel ::
  "LtiPrivacyLevel \<Rightarrow> Lti1p3RegistrationOverlayState \<Rightarrow> Lti1p3RegistrationOverlayState" where
  "setPrivacyLevel privacyLevel s =
     s\<lparr> data_sharing := data_sharing_with privacyLevel (data_sharing s) \<rparr>"

definition placements_flag_toggled :: "placements_obj \<Rightarrow> placements_obj" where
  "placements_flag_toggled pl =
     pl\<lparr> courseNavigationDefaultDisabled :=
          Some (\<not> truthy_bool (courseNavigationDefaultDisabled pl)) \<rparr>"

definition toggleCourseNavigationDefaultDisabled ::
  "Lti1p3RegistrationOverlayState \<Rightarrow> Lti1p3RegistrationOverlayState" where
  "toggleCourseNavigationDefaultDisabled s =
     s\<lparr> Lti1p3RegistrationOverlayState.placements :=
          placements_flag_toggled (Lti1p3RegistrationOverlayState.placements s) \<rparr>"

definition placements_toggled :: "LtiPlacement \<Rightarrow> placements_obj \<Rightarrow> placements_obj" where
  "placements_toggled kind pl =
     pl\<lparr> placements_obj.placements :=
          Some (toggle_in_list kind (placements_obj.placements pl)) \<rparr>"

definition togglePlacement ::
  "LtiPlacement \<Rightarrow> Lti1p3RegistrationOverlayState \<Rightarrow> Lti1p3RegistrationOverlayState" where
  "togglePlacement kind s =
     s\<lparr> Lti1p3RegistrationOverlayState.placements :=
          placements_toggled kind (Lti1p3RegistrationOverlayState.placements s) \<rparr>"

text \<open>
  The action table of \<^verbatim>\<open>createLti1p3RegistrationOverlayStore\<close>, one constructor per action;
  \<open>mutator\<close> gives the function on snapshots that the action hands to \<^verbatim>\<open>updateState\<close>. In
  the definitions above the snapshot is \<open>s\<close> and a placement argument is \<open>kind\<close>, since \<open>state\<close>
  and \<open>placement\<close> name record fields.
\<close>

datatype action =
    SetRedirectURIs string
  | SetDefaultTargetLinkURI string
  | SetOIDCInitiationURI string
  | SetJwkURL string
  | SetJwk string
  | SetJwkMethod JwkMethod
  | SetDomain string
  | SetCustomFields string
  | ToggleScope LtiScope
  | SetPrivacyLevel LtiPrivacyLevel
  | ToggleCourseNavigationDefaultDisabled
  | TogglePlacement LtiPlacement

fun mutator :: "action \<Rightarrow> Lti1p3RegistrationOverlayState \<Rightarrow> Lti1p3RegistrationOverlayState" where
  "mutator (SetRedirectURIs v) = updateLaunchSetting (Key_redirectURIs v)"
| "mutator (SetDefaultTargetLinkURI v) = updateLaunchSetting (Key_targetLinkURI v)"
| "mutator (SetOIDCInitiationURI v) = updateLaunchSetting (Key_openIDConnectInitiationURL v)"
| "mutator (SetJwkURL v) = updateLaunchSetting (Key_JwkURL v)"
| "mutator (SetJwk v) = updateLaunchSetting (Key_Jwk v)"
| "mutator (SetJwkMethod v) = updateLaunchSetting (Key_JwkMethod v)"
| "mutator (SetDomain v) = updateLaunchSetting (Key_domain v)"
| "mutator (SetCustomFields v) = updateLaunchSetting (Key_customFields v)"
| "mutator (ToggleScope scope) = toggleScope scope"
| "mutator (SetPrivacyLevel privacyLevel) = setPrivacyLevel privacyLevel"
| "mutator ToggleCourseNavigationDefaultDisabled = toggleCourseNavigationDefaultDisabled"
| "mutator (TogglePlacement kind) = togglePlacement kind"

definition dispatch :: "action \<Rightarrow> fullState \<Rightarrow> fullState" where
  "dispatch a = updateState (mutator a)"

subsection \<open>Objects and references\<close>

text \<open>
  Whether two snapshots share a section object is a question about references, which the
  records above cannot express. For it the store is modelled a second time with an explicit
  heap: a snapshot is the record of the seven references that the top-level object holds, and
  the heap maps a reference to the object it denotes, one table per section type. An object
  literal allocates the next free reference; no action assigns to a property of an existing
  object, so allocation is the only change to the heap. The spread \<^verbatim>\<open>...state\<close> copies the
  seven references, and the section named in the literal replaces one of them.
\<close>

type_synonym ref = nat

record heap =
  launchSettings_at :: "ref \<Rightarrow> launchSettings_obj"
  permissions_at :: "ref \<Rightarrow> permissions_obj"
  data_sharing_at :: "ref \<Rightarrow> data_sharing_obj"
  placements_at :: "ref \<Rightarrow> placements_obj"
  override_uris_at :: "ref \<Rightarrow> override_uris_obj"
  naming_at :: "ref \<Rightarrow> naming_obj"
  icons_at :: "ref \<Rightarrow> icons_obj"
  next_ref :: ref

record snapshot_refs =
  launchSettings_ref :: ref
  permissions_ref :: ref
  data_sharing_ref :: ref
  placements_ref :: ref
  override_uris_ref :: ref
  naming_ref :: ref
  icons_ref :: ref

text \<open>The snapshot that a record of references denotes in a heap.\<close>

definition snapshot_of :: "heap \<Rightarrow> snapshot_refs \<Rightarrow> Lti1p3RegistrationOverlayState" where
  "snapshot_of h r =
     \<lparr> launchSettings = launchSettings_at h (launchSettings_ref r),
       permissions = permissions_at h (permissions_ref r),
       data_sharing = data_sharing_at h (data_sharing_ref r),
       Lti1p3RegistrationOverlayState.placements = placements_at h (placements_ref r),
       override_uris = override_uris_at h (override_uris_ref r),
       naming = naming_at h (naming_ref r),
       icons = icons_at h (icons_ref r) \<rparr>"

definition updateLaunchSetting_refs ::
  "launchSetting \<Rightarrow> heap \<times> snapshot_refs \<Rightarrow> heap \<times> snapshot_refs" where
  "updateLaunchSetting_refs kv = (\<lambda>(h, r).
     (h\<lparr> launchSettings_at :=
           (launchSettings_at h)
             (next_ref h := launchSettings_with kv (launchSettings_at h (launchSettings_ref r))),
         next_ref := Suc (next_ref h) \<rparr>,
      r\<lparr> launchSettings_ref := next_ref h \<rparr>))"

definition toggleScope_refs ::
  "LtiScope \<Rightarrow> heap \<times> snapshot_refs \<Rightarrow> heap \<times> snapshot_refs" where
  "toggleScope_refs scope = (\<lambda>(h, r).
     (h\<lparr> permissions_at :=
           (permissions_at h)
             (next_ref h := permissions_toggled scope (permissions_at h (permissions_ref r))),
         next_ref := Suc (next_ref h) \<rparr>,
      r\<lparr> permissions_ref := next_ref h \<rparr>))"

definition setPrivacyLevel_refs ::
  "LtiPrivacyLevel \<Rightarrow> heap \<times> snapshot_refs \<Rightarrow> heap \<times> snapshot_refs" where
  "setPrivacyLevel_refs privacyLevel = (\<lambda>(h, r).
     (h\<lparr> data_sharing_at :=
           (data_sharing_at h)
             (next_ref h := data_sharing_with privacyLevel (data_sharing_at h (data_sharing_ref r))),
         next_ref := Suc (next_ref h) \<rparr>,
      r\<lparr> data_sharing_ref := next_ref h \<rparr>))"

definition toggleCourseNavigationDefaultDisabled_refs ::
  "heap \<times> snapshot_refs \<Rightarrow> heap \<times> snapshot_refs" where
  "toggleCourseNavigationDefaultDisabled_refs = (\<lambda>(h, r).
     (h\<lparr> placements_at :=
           (placements_at h)
             (next_ref h := placements_flag_toggled (placements_at h (placements_ref r))),
         next_ref := Suc (next_ref h) \<rparr>,
      r\<lparr> placements_ref := next_ref h \<rparr>))"

definition togglePlacement_refs ::
  "LtiPlacement \<Rightarrow> heap \<times> snapshot_refs \<Rightarrow> heap \<times> snapshot_refs" where
  "togglePlacement_refs kind = (\<lambda>(h, r).
     (h\<lparr> placements_at :=
           (placements_at h)
             (next_ref h := placements_toggled kind (placements_at h (placements_ref r))),
         next_ref := Suc (next_ref h) \<rparr>,
      r\<lparr> placements_ref := next_ref h \<rparr>))"

fun mutator_refs :: "action \<Rightarrow> heap \<times> snapshot_refs \<Rightarrow> heap \<times> snapshot_refs" where
  "mutator_refs (SetRedirectURIs v) = updateLaunchSetting_refs (Key_redirectURIs v)"
| "mutator_refs (SetDefaultTargetLinkURI v) = updateLaunchSetting_refs (Key_targetLinkURI v)"
| "mutator_refs (SetOIDCInitiationURI v) =
     updateLaunchSetting_refs (Key_openIDConnectInitiationURL v)"
| "mutator_refs (SetJwkURL v) = updateLaunchSetting_refs (Key_JwkURL v)"
| "mutator_refs (SetJwk v) = updateLaunchSetting_refs (Key_Jwk v)"
| "mutator_refs (SetJwkMethod v) = updateLaunchSetting_refs (Key_JwkMethod v)"
| "mutator_refs (SetDomain v) = updateLaunchSetting_refs (Key_domain v)"
| "mutator_refs (SetCustomFields v) = updateLaunchSetting_refs (Key_customFields v)"
| "mutator_refs (ToggleScope scope) = toggleScope_refs scope"
| "mutator_refs (SetPrivacyLevel privacyLevel) = setPrivacyLevel_refs privacyLevel"
| "mutator_refs ToggleCourseNavigationDefaultDisabled =
     toggleCourseNavigationDefaultDisabled_refs"
| "mutator_refs (TogglePlacement kind) = togglePlacement_refs kind"

text \<open>The seven top-level sections, the one an action writes, and views of a section.\<close>

datatype section_name =
  LaunchSettings | Permissions | Data_sharing | Placements | Override_uris | Naming | Icons

fun target :: "action \<Rightarrow> section_name" where
  "target (SetRedirectURIs v) = LaunchSettings"
| "target (SetDefaultTargetLinkURI v) = LaunchSettings"
| "target (SetOIDCInitiationURI v) = LaunchSettings"
| "target (SetJwkURL v) = LaunchSettings"
| "target (SetJwk v) = LaunchSettings"
| "target (SetJwkMethod v) = LaunchSettings"
| "target (SetDomain v) = LaunchSettings"
| "target (SetCustomFields v) = LaunchSettings"
| "target (ToggleScope scope) = Permissions"
| "target (SetPrivacyLevel privacyLevel) = Data_sharing"
| "target ToggleCourseNavigationDefaultDisabled = Placements"
| "target (TogglePlacement kind) = Placements"

datatype section_obj =
    LaunchSettings_obj launchSettings_obj
  | Permissions_obj permissions_obj
  | Data_sharing_obj data_sharing_obj
  | Placements_obj placements_obj
  | Override_uris_obj override_uris_obj
  | Naming_obj naming_obj
  | Icons_obj icons_obj

fun section_ref :: "snapshot_refs \<Rightarrow> section_name \<Rightarrow> ref" where
  "section_ref r LaunchSettings = launchSettings_ref r"
| "section_ref r Permissions = permissions_ref r"
| "section_ref r Data_sharing = data_sharing_ref r"
| "section_ref r Placements = placements_ref r"
| "section_ref r Override_uris = override_uris_ref r"
| "section_ref r Naming = naming_ref r"
| "section_ref r Icons = icons_ref r"

fun object_at :: "heap \<Rightarrow> section_name \<Rightarrow> ref \<Rightarrow> section_obj" where
  "object_at h LaunchSettings a = LaunchSettings_obj (launchSettings_at h a)"
| "object_at h Permissions a = Permissions_obj (permissions_at h a)"
| "object_at h Data_sharing a = Data_sharing_obj (data_sharing_at h a)"
| "object_at h Placements a = Placements_obj (placements_at h a)"
| "object_at h Override_uris a = Override_uris_obj (override_uris_at h a)"
| "object_at h Naming a = Naming_obj (naming_at h a)"
| "object_at h Icons a = Icons_obj (icons_at h a)"

fun section_of :: "Lti1p3RegistrationOverlayState \<Rightarrow> section_name \<Rightarrow> section_obj" where
  "section_of s LaunchSettings = LaunchSettings_obj (launchSettings s)"
| "section_of s Permissions = Permissions_obj (permissions s)"
| "section_of s Data_sharing = Data_sharing_obj (data_sharing s)"
| "section_of s Placements =
     Placements_obj (Lti1p3RegistrationOverlayState.placements s)"
| "section_of s Override_uris = Override_uris_obj (override_uris s)"
| "section_of s Naming = Naming_obj (naming s)"
| "section_of s Icons = Icons_obj (icons s)"

subsection \<open>Properties of a snapshot\<close>

text \<open>
  The collections read the way the actions read them: a missing list is the empty list, a
  missing flag is false. \<open>no_duplicates\<close> is the invariant of the data model: neither list,
  when present, holds an entry twice.
\<close>

definition scope_list :: "Lti1p3RegistrationOverlayState \<Rightarrow> LtiScope list" where
  "scope_list s = nullish (permissions_obj.scopes (permissions s)) []"

definition placement_list :: "Lti1p3RegistrationOverlayState \<Rightarrow> LtiPlacement list" where
  "placement_list s =
     nullish (placements_obj.placements (Lti1p3RegistrationOverlayState.placements s)) []"

definition flag_value :: "Lti1p3RegistrationOverlayState \<Rightarrow> bool" where
  "flag_value s =
     truthy_bool (courseNavigationDefaultDisabled (Lti1p3RegistrationOverlayState.placements s))"

definition no_duplicates :: "Lti1p3RegistrationOverlayState \<Rightarrow> bool" where
  "no_duplicates s = (distinct (scope_list s) \<and> distinct (placement_list s))"

subsection \<open>A sample document\<close>

text \<open>
  A base document with two scopes, two redirect URIs, two custom fields and two placement
  records of the same kind, the second one disabled by default; its structured key is
  already a string, so that \<^verbatim>\<open>JSON.stringify\<close> can be the identity. The sample snapshot is
  the initializer's result. The sample heap has allocated the references 0 to 6, which the
  sample references use, one per section of the sample snapshot; its tables are total, and
  hold the same section at the references not yet allocated.
\<close>

definition nav_plain :: InternalPlacementConfiguration where
  "nav_plain =
     \<lparr> placement = ''course_navigation'',
       InternalPlacementConfiguration.message_type = None,
       url = None,
       text' = None,
       default = None,
       InternalPlacementConfiguration.icon_url = None \<rparr>"

definition nav_disabled :: InternalPlacementConfiguration where
  "nav_disabled =
     \<lparr> placement = ''course_navigation'',
       InternalPlacementConfiguration.message_type = Some ''LtiDeepLinkingRequest'',
       url = Some ''https://x.com/nav'',
       text' = Some ''Navigation'',
       default = Some ''disabled'',
       InternalPlacementConfiguration.icon_url = Some ''https://x.com/icon.png'' \<rparr>"

definition sample_config :: "string InternalLtiConfiguration" where
  "sample_config =
     \<lparr> title = ''Tool'',
       target_link_uri = ''https://x.com/launch'',
       oidc_initiation_url = ''https://x.com/oidc'',
       redirect_uris = Some [''https://x.com/a'', ''https://x.com/b''],
       public_jwk_url = Some ''https://x.com/jwks'',
       public_jwk = Some ''{}'',
       InternalLtiConfiguration.domain = Some ''x.com'',
       custom_fields = Some [(''a'', ''1''), (''b'', ''2'')],
       InternalLtiConfiguration.scopes = Some [''lineitem'', ''score''],
       InternalLtiConfiguration.privacy_level = Some ''public'',
       InternalLtiConfiguration.placements = [nav_plain, nav_disabled] \<rparr>"

definition sample_state :: Lti1p3RegistrationOverlayState where
  "sample_state = initialOverlayStateFromInternalConfig (\<lambda>k. k) sample_config"

definition sample_refs :: snapshot_refs where
  "sample_refs =
     \<lparr> launchSettings_ref = 0, permissions_ref = 1, data_sharing_ref = 2, placements_ref = 3,
       override_uris_ref = 4, naming_ref = 5, icons_ref = 6 \<rparr>"

definition sample_heap :: heap where
  "sample_heap =
     \<lparr> launchSettings_at = (\<lambda>a. launchSettings sample_state),
       permissions_at = (\<lambda>a. permissions sample_state),
       data_sharing_at = (\<lambda>a. data_sharing sample_state),
       placements_at = (\<lambda>a. Lti1p3RegistrationOverlayState.placements sample_state),
       override_uris_at = (\<lambda>a. override_uris sample_state),
       naming_at = (\<lambda>a. naming sample_state),
       icons_at = (\<lambda>a. icons sample_state),
       next_ref = 7 \<rparr>"

text \<open>The same document with one placement record, and its snapshot.\<close>

definition single_config :: "string InternalLtiConfiguration" where
  "single_config = sample_config\<lparr> InternalLtiConfiguration.placements := [nav_disabled] \<rparr>"

definition single_state :: Lti1p3RegistrationOverlayState where
  "single_state = initialOverlayStateFromInternalConfig (\<lambda>k. k) single_config"

section \<open>Properties\<close>

lemmas mutator_defs =
  updateLaunchSetting_def toggleScope_def setPrivacyLevel_def
  toggleCourseNavigationDefaultDisabled_def togglePlacement_def

lemmas mutator_refs_defs =
  updateLaunchSetting_refs_def toggleScope_refs_def setPrivacyLevel_refs_def
  toggleCourseNavigationDefaultDisabled_refs_def togglePlacement_refs_def

lemmas sample_defs =
  sample_state_def sample_config_def single_state_def single_config_def nav_plain_def
  nav_disabled_def initialOverlayStateFromInternalConfig_def

lemma state_dispatch: "state (dispatch a fullState) = mutator a (state fullState)"
  by (simp add: dispatch_def updateState_def stateFor_def)

subsection \<open>Array methods\<close>

lemma array_includes_iff: "array_includes xs x \<longleftrightarrow> x \<in> set xs"
  by (induction xs) auto

lemma join_loop_pos: "0 < k \<Longrightarrow> join_loop sep R k xs = R @ concat (map (\<lambda>x. sep @ x) xs)"
  by (induction xs arbitrary: R k) simp_all

lemma join_Nil: "join sep [] = []"
  by (simp add: join_def)

lemma join_Cons: "join sep (x # xs) = x @ concat (map (\<lambda>y. sep @ y) xs)"
  by (simp add: join_def join_loop_pos)

lemma foldl_customFields_step:
  "foldl customFields_step acc entries =
     acc @ concat (map (\<lambda>(key, value). key @ ''='' @ value @ ''\<newline>'') entries)"
  by (induction entries arbitrary: acc) (auto simp: customFields_step_def)

lemma find_first:
  "P p \<Longrightarrow> \<forall>q\<in>set xs. \<not> P q \<Longrightarrow> List.find P (xs @ p # ys) = Some p"
  by (induction xs) auto

lemma find_none: "\<forall>q\<in>set xs. \<not> P q \<Longrightarrow> List.find P xs = None"
  by (induction xs) auto

lemma foldl_upd_other:
  "\<forall>q\<in>set ys. key q \<noteq> k \<Longrightarrow>
     foldl (\<lambda>acc p. acc(key p \<mapsto> val p)) m ys k = m k"
  by (induction ys arbitrary: m) auto

lemma foldl_upd_split:
  "\<forall>q\<in>set ys. key q \<noteq> key p \<Longrightarrow>
     foldl (\<lambda>acc p. acc(key p \<mapsto> val p)) m (xs @ p # ys) (key p) = Some (val p)"
  by (simp add: foldl_upd_other)

lemma last_filter_split:
  "filter P ps \<noteq> [] \<Longrightarrow>
     \<exists>xs ys. ps = xs @ last (filter P ps) # ys \<and> (\<forall>q\<in>set ys. \<not> P q) \<and> P (last (filter P ps))"
proof (induction ps rule: rev_induct)
  case Nil
  then show ?case by simp
next
  case (snoc a ps)
  show ?case
  proof (cases "P a")
    case True
    then show ?thesis
      by (intro exI[of _ ps] exI[of _ "[]"]) simp
  next
    case False
    with snoc.prems have "filter P ps \<noteq> []" by simp
    from snoc.IH[OF this] obtain xs ys where
      "ps = xs @ last (filter P ps) # ys" "\<forall>q\<in>set ys. \<not> P q" "P (last (filter P ps))"
      by blast
    with False show ?thesis
      by (intro exI[of _ xs] exI[of _ "ys @ [a]"]) auto
  qed
qed

subsection \<open>Toggling an entry of a list\<close>

lemma toggle_in_list_present:
  "x \<in> set xs \<Longrightarrow> toggle_in_list x (Some xs) = filter (\<lambda>s. s \<noteq> x) xs"
  by (simp add: toggle_in_list_def array_includes_iff)

lemma toggle_in_list_absent:
  "x \<notin> set xs \<Longrightarrow> toggle_in_list x (Some xs) = xs @ [x]"
  by (simp add: toggle_in_list_def array_includes_iff)

lemma toggle_in_list_None: "toggle_in_list x None = [x]"
  by (simp add: toggle_in_list_def)

lemma toggle_in_list_twice_set:
  "set (toggle_in_list x (Some (toggle_in_list x xso))) = set (nullish xso [])"
  by (cases xso; cases "x \<in> set (nullish xso [])")
     (auto simp: toggle_in_list_def array_includes_iff)

lemma toggle_in_list_twice_absent:
  "x \<notin> set xs \<Longrightarrow> toggle_in_list x (Some (toggle_in_list x (Some xs))) = xs"
proof -
  assume "x \<notin> set xs"
  then have "filter (\<lambda>s. s \<noteq> x) xs = xs"
    by (induction xs) auto
  then show ?thesis
    by (simp add: toggle_in_list_def array_includes_iff)
qed

lemma toggle_in_list_distinct:
  "distinct (nullish xso []) \<Longrightarrow> distinct (toggle_in_list x xso)"
  by (cases xso) (auto simp: toggle_in_list_def array_includes_iff)

subsection \<open>Toggling a scope\<close>

text \<open>
  C6: \<open>toggleScope\<close> removes the scope from \<^verbatim>\<open>permissions.scopes\<close> when it is present and
  appends it otherwise; a missing list is read as empty, so the result is then the
  one-element list of the scope. The action is a total function: it returns a snapshot with
  a list of scopes for every snapshot and every scope.
\<close>

theorem toggleScope_removes_or_appends:
  "(permissions_obj.scopes (permissions s) = Some xs \<and> scope \<in> set xs \<longrightarrow>
      permissions_obj.scopes (permissions (toggleScope scope s)) = Some (removeAll scope xs) \<and>
      scope \<notin> set (removeAll scope xs)) \<and>
   (permissions_obj.scopes (permissions s) = Some xs \<and> scope \<notin> set xs \<longrightarrow>
      permissions_obj.scopes (permissions (toggleScope scope s)) = Some (xs @ [scope])) \<and>
   (permissions_obj.scopes (permissions s) = None \<longrightarrow>
      permissions_obj.scopes (permissions (toggleScope scope s)) = Some [scope])"
proof (intro conjI impI)
  assume "permissions_obj.scopes (permissions s) = Some xs \<and> scope \<in> set xs"
  moreover have "filter (\<lambda>s. s \<noteq> scope) xs = removeAll scope xs"
    by (induction xs) auto
  ultimately show
    "permissions_obj.scopes (permissions (toggleScope scope s)) = Some (removeAll scope xs)"
    by (simp add: toggleScope_def permissions_toggled_def toggle_in_list_present)
next
  show "scope \<notin> set (removeAll scope xs)" by simp
next
  assume "permissions_obj.scopes (permissions s) = Some xs \<and> scope \<notin> set xs"
  then show "permissions_obj.scopes (permissions (toggleScope scope s)) = Some (xs @ [scope])"
    by (simp add: toggleScope_def permissions_toggled_def toggle_in_list_absent)
next
  assume "permissions_obj.scopes (permissions s) = None"
  then show "permissions_obj.scopes (permissions (toggleScope scope s)) = Some [scope]"
    by (simp add: toggleScope_def permissions_toggled_def toggle_in_list_None)
qed

text \<open>
  On the sample snapshot, whose scopes are \<^verbatim>\<open>lineitem\<close> and \<^verbatim>\<open>score\<close>: toggling \<^verbatim>\<open>score\<close>
  removes it, toggling \<^verbatim>\<open>result\<close> appends it, and with the list missing the toggle gives
  the one-element list.
\<close>

theorem toggleScope_removes_or_appends_witness:
  "permissions_obj.scopes (permissions sample_state) = Some [''lineitem'', ''score''] \<and>
   permissions_obj.scopes (permissions (toggleScope ''score'' sample_state)) = Some [''lineitem''] \<and>
   permissions_obj.scopes (permissions (toggleScope ''result'' sample_state)) =
     Some [''lineitem'', ''score'', ''result''] \<and>
   permissions_obj.scopes (permissions
     (toggleScope ''score'' (sample_state\<lparr> permissions := \<lparr> permissions_obj.scopes = None \<rparr> \<rparr>))) =
     Some [''score'']"
proof -
  have s: "permissions_obj.scopes (permissions sample_state) = Some [''lineitem'', ''score'']"
    by (simp add: sample_state_def sample_config_def initialOverlayStateFromInternalConfig_def)
  show ?thesis
    using s
      toggleScope_removes_or_appends [of sample_state "[''lineitem'', ''score'']" "''score''"]
      toggleScope_removes_or_appends [of sample_state "[''lineitem'', ''score'']" "''result''"]
      toggleScope_removes_or_appends
        [of "sample_state\<lparr> permissions := \<lparr> permissions_obj.scopes = None \<rparr> \<rparr>" "[]" "''score''"]
    by simp
qed

subsection \<open>Toggling twice\<close>

lemma toggleScope_twice:
  "toggleScope scope (toggleScope scope s) =
     s\<lparr> permissions := (permissions s)\<lparr> permissions_obj.scopes :=
       Some (toggle_in_list scope
         (Some (toggle_in_list scope (permissions_obj.scopes (permissions s))))) \<rparr> \<rparr>"
  by (simp add: toggleScope_def permissions_toggled_def)

lemma togglePlacement_twice:
  "togglePlacement kind (togglePlacement kind s) =
     s\<lparr> Lti1p3RegistrationOverlayState.placements :=
        (Lti1p3RegistrationOverlayState.placements s)\<lparr> placements_obj.placements :=
       Some (toggle_in_list kind (Some (toggle_in_list kind
         (placements_obj.placements (Lti1p3RegistrationOverlayState.placements s))))) \<rparr> \<rparr>"
  by (simp add: togglePlacement_def placements_toggled_def)

lemma toggleFlag_twice:
  "toggleCourseNavigationDefaultDisabled (toggleCourseNavigationDefaultDisabled s) =
     s\<lparr> Lti1p3RegistrationOverlayState.placements :=
        (Lti1p3RegistrationOverlayState.placements s)\<lparr> courseNavigationDefaultDisabled :=
          Some (truthy_bool (courseNavigationDefaultDisabled
            (Lti1p3RegistrationOverlayState.placements s))) \<rparr> \<rparr>"
  by (simp add: toggleCourseNavigationDefaultDisabled_def placements_flag_toggled_def)

lemma sample_scopes:
  "permissions_obj.scopes (permissions sample_state) = Some [''lineitem'', ''score'']"
  by (simp add: sample_defs)

lemma sample_placements:
  "placements_obj.placements (Lti1p3RegistrationOverlayState.placements sample_state) =
     Some [''course_navigation'', ''course_navigation'']"
  by (simp add: sample_defs)

lemma sample_flag:
  "courseNavigationDefaultDisabled (Lti1p3RegistrationOverlayState.placements sample_state) =
     Some False"
  by (simp add: sample_defs)

lemma filter_neq_removeAll: "filter (\<lambda>s. s \<noteq> x) xs = removeAll x xs"
  by (induction xs) auto

lemma toggle_in_list_twice_eq:
  "toggle_in_list x (Some (toggle_in_list x xso)) =
     (if x \<in> set (nullish xso []) then removeAll x (nullish xso []) @ [x] else nullish xso [])"
proof (cases xso)
  case None
  then show ?thesis
    by (simp add: toggle_in_list_def)
next
  case (Some xs)
  show ?thesis
  proof (cases "x \<in> set xs")
    case True
    with Some show ?thesis
      by (simp add: toggle_in_list_present toggle_in_list_absent filter_neq_removeAll)
  next
    case False
    with Some show ?thesis
      by (simp add: toggle_in_list_twice_absent)
  qed
qed

lemma toggle_in_list_twice_restores:
  "Some (toggle_in_list x (Some (toggle_in_list x xso))) = xso \<longleftrightarrow>
     xso \<noteq> None \<and>
     (x \<notin> set (nullish xso []) \<or> nullish xso [] = removeAll x (nullish xso []) @ [x])"
  by (cases xso) (auto simp: toggle_in_list_twice_eq)

lemma toggleScope_twice_restores:
  "toggleScope scope (toggleScope scope s) = s \<longleftrightarrow>
     permissions_obj.scopes (permissions s) \<noteq> None \<and>
     (scope \<notin> set (scope_list s) \<or> scope_list s = removeAll scope (scope_list s) @ [scope])"
proof -
  have "toggleScope scope (toggleScope scope s) = s \<longleftrightarrow>
      Some (toggle_in_list scope
        (Some (toggle_in_list scope (permissions_obj.scopes (permissions s))))) =
      permissions_obj.scopes (permissions s)"
    by (cases s, cases "permissions s") (simp add: toggleScope_twice)
  then show ?thesis
    by (simp add: toggle_in_list_twice_restores scope_list_def)
qed

lemma togglePlacement_twice_restores:
  "togglePlacement kind (togglePlacement kind s) = s \<longleftrightarrow>
     placements_obj.placements (Lti1p3RegistrationOverlayState.placements s) \<noteq> None \<and>
     (kind \<notin> set (placement_list s) \<or>
      placement_list s = removeAll kind (placement_list s) @ [kind])"
proof -
  have "togglePlacement kind (togglePlacement kind s) = s \<longleftrightarrow>
      Some (toggle_in_list kind (Some (toggle_in_list kind
        (placements_obj.placements (Lti1p3RegistrationOverlayState.placements s))))) =
      placements_obj.placements (Lti1p3RegistrationOverlayState.placements s)"
    by (cases s, cases "Lti1p3RegistrationOverlayState.placements s")
       (simp add: togglePlacement_twice)
  then show ?thesis
    by (simp add: toggle_in_list_twice_restores placement_list_def)
qed

lemma toggleFlag_twice_restores:
  "toggleCourseNavigationDefaultDisabled (toggleCourseNavigationDefaultDisabled s) = s \<longleftrightarrow>
     courseNavigationDefaultDisabled (Lti1p3RegistrationOverlayState.placements s) \<noteq> None"
proof -
  have "toggleCourseNavigationDefaultDisabled (toggleCourseNavigationDefaultDisabled s) = s \<longleftrightarrow>
      Some (truthy_bool (courseNavigationDefaultDisabled
        (Lti1p3RegistrationOverlayState.placements s))) =
      courseNavigationDefaultDisabled (Lti1p3RegistrationOverlayState.placements s)"
    by (cases s, cases "Lti1p3RegistrationOverlayState.placements s")
       (simp add: toggleFlag_twice)
  then show ?thesis
    by (cases "courseNavigationDefaultDisabled (Lti1p3RegistrationOverlayState.placements s)")
       simp_all
qed

lemma toggleScope_twice_frame:
  "(toggleScope scope (toggleScope scope s))
     \<lparr> permissions := (permissions (toggleScope scope (toggleScope scope s)))
        \<lparr> permissions_obj.scopes := permissions_obj.scopes (permissions s) \<rparr> \<rparr> = s"
  by (simp add: toggleScope_twice)

lemma togglePlacement_twice_frame:
  "(togglePlacement kind (togglePlacement kind s))
     \<lparr> Lti1p3RegistrationOverlayState.placements :=
        (Lti1p3RegistrationOverlayState.placements (togglePlacement kind (togglePlacement kind s)))
        \<lparr> placements_obj.placements :=
            placements_obj.placements (Lti1p3RegistrationOverlayState.placements s) \<rparr> \<rparr> = s"
  by (simp add: togglePlacement_twice)

lemma toggleFlag_twice_frame:
  "(toggleCourseNavigationDefaultDisabled (toggleCourseNavigationDefaultDisabled s))
     \<lparr> Lti1p3RegistrationOverlayState.placements :=
        (Lti1p3RegistrationOverlayState.placements
          (toggleCourseNavigationDefaultDisabled (toggleCourseNavigationDefaultDisabled s)))
        \<lparr> courseNavigationDefaultDisabled :=
            courseNavigationDefaultDisabled (Lti1p3RegistrationOverlayState.placements s) \<rparr> \<rparr> = s"
  by (simp add: toggleFlag_twice)

lemma toggleScope_twice_list:
  "scope_list (toggleScope scope (toggleScope scope s)) =
     (if scope \<in> set (scope_list s) then removeAll scope (scope_list s) @ [scope]
      else scope_list s)"
  by (simp add: toggleScope_twice scope_list_def toggle_in_list_twice_eq)

lemma togglePlacement_twice_list:
  "placement_list (togglePlacement kind (togglePlacement kind s)) =
     (if kind \<in> set (placement_list s) then removeAll kind (placement_list s) @ [kind]
      else placement_list s)"
  by (simp add: togglePlacement_twice placement_list_def toggle_in_list_twice_eq)

text \<open>
  C1, as amended: applying the same toggle twice changes nothing outside the toggled list,
  respectively the toggled flag: with the original list (flag) put back, the result is the
  original snapshot, so every other section, and the other field of the placements section,
  is as before. The list holds the same entries as a set afterwards (a missing list read as
  empty): an entry that was present is removed everywhere and ends up once, at the end, and
  a list without the entry is unchanged. The flag has the same truth value afterwards (a
  missing flag read as false). The snapshot itself comes back exactly when the list is
  present and the toggled entry either is not in it or occurs in it once, as its last entry;
  for the flag, exactly when the flag is present.
\<close>

theorem toggle_twice:
  "(scope_list (toggleScope scope (toggleScope scope s)) =
      (if scope \<in> set (scope_list s) then removeAll scope (scope_list s) @ [scope]
       else scope_list s) \<and>
    set (scope_list (toggleScope scope (toggleScope scope s))) = set (scope_list s) \<and>
    (toggleScope scope (toggleScope scope s))
      \<lparr> permissions := (permissions (toggleScope scope (toggleScope scope s)))
         \<lparr> permissions_obj.scopes := permissions_obj.scopes (permissions s) \<rparr> \<rparr> = s \<and>
    (toggleScope scope (toggleScope scope s) = s \<longleftrightarrow>
       permissions_obj.scopes (permissions s) \<noteq> None \<and>
       (scope \<notin> set (scope_list s) \<or>
        scope_list s = removeAll scope (scope_list s) @ [scope]))) \<and>
   (placement_list (togglePlacement kind (togglePlacement kind s)) =
      (if kind \<in> set (placement_list s) then removeAll kind (placement_list s) @ [kind]
       else placement_list s) \<and>
    set (placement_list (togglePlacement kind (togglePlacement kind s))) =
      set (placement_list s) \<and>
    (togglePlacement kind (togglePlacement kind s))
      \<lparr> Lti1p3RegistrationOverlayState.placements :=
         (Lti1p3RegistrationOverlayState.placements
           (togglePlacement kind (togglePlacement kind s)))
         \<lparr> placements_obj.placements :=
             placements_obj.placements (Lti1p3RegistrationOverlayState.placements s) \<rparr> \<rparr> = s \<and>
    courseNavigationDefaultDisabled
      (Lti1p3RegistrationOverlayState.placements
        (togglePlacement kind (togglePlacement kind s))) =
      courseNavigationDefaultDisabled (Lti1p3RegistrationOverlayState.placements s) \<and>
    (togglePlacement kind (togglePlacement kind s) = s \<longleftrightarrow>
       placements_obj.placements (Lti1p3RegistrationOverlayState.placements s) \<noteq> None \<and>
       (kind \<notin> set (placement_list s) \<or>
        placement_list s = removeAll kind (placement_list s) @ [kind]))) \<and>
   (flag_value (toggleCourseNavigationDefaultDisabled (toggleCourseNavigationDefaultDisabled s)) =
      flag_value s \<and>
    (toggleCourseNavigationDefaultDisabled (toggleCourseNavigationDefaultDisabled s))
      \<lparr> Lti1p3RegistrationOverlayState.placements :=
         (Lti1p3RegistrationOverlayState.placements
           (toggleCourseNavigationDefaultDisabled (toggleCourseNavigationDefaultDisabled s)))
         \<lparr> courseNavigationDefaultDisabled :=
             courseNavigationDefaultDisabled
               (Lti1p3RegistrationOverlayState.placements s) \<rparr> \<rparr> = s \<and>
    placements_obj.placements
      (Lti1p3RegistrationOverlayState.placements
        (toggleCourseNavigationDefaultDisabled (toggleCourseNavigationDefaultDisabled s))) =
      placements_obj.placements (Lti1p3RegistrationOverlayState.placements s) \<and>
    (toggleCourseNavigationDefaultDisabled (toggleCourseNavigationDefaultDisabled s) = s \<longleftrightarrow>
       courseNavigationDefaultDisabled (Lti1p3RegistrationOverlayState.placements s) \<noteq> None))"
proof (intro conjI)
  show "scope_list (toggleScope scope (toggleScope scope s)) =
      (if scope \<in> set (scope_list s) then removeAll scope (scope_list s) @ [scope]
       else scope_list s)"
    by (rule toggleScope_twice_list)
  then show "set (scope_list (toggleScope scope (toggleScope scope s))) = set (scope_list s)"
    by auto
  show "placement_list (togglePlacement kind (togglePlacement kind s)) =
      (if kind \<in> set (placement_list s) then removeAll kind (placement_list s) @ [kind]
       else placement_list s)"
    by (rule togglePlacement_twice_list)
  then show "set (placement_list (togglePlacement kind (togglePlacement kind s))) =
      set (placement_list s)"
    by auto
  show "flag_value (toggleCourseNavigationDefaultDisabled
          (toggleCourseNavigationDefaultDisabled s)) = flag_value s"
    by (simp add: toggleFlag_twice flag_value_def)
  show "courseNavigationDefaultDisabled
      (Lti1p3RegistrationOverlayState.placements
        (togglePlacement kind (togglePlacement kind s))) =
      courseNavigationDefaultDisabled (Lti1p3RegistrationOverlayState.placements s)"
    by (simp add: togglePlacement_twice)
  show "placements_obj.placements
      (Lti1p3RegistrationOverlayState.placements
        (toggleCourseNavigationDefaultDisabled (toggleCourseNavigationDefaultDisabled s))) =
      placements_obj.placements (Lti1p3RegistrationOverlayState.placements s)"
    by (simp add: toggleFlag_twice)
qed (rule toggleScope_twice_frame toggleScope_twice_restores togglePlacement_twice_frame
      togglePlacement_twice_restores toggleFlag_twice_frame toggleFlag_twice_restores)+

text \<open>
  On the sample snapshot, with scopes \<^verbatim>\<open>lineitem\<close>, \<^verbatim>\<open>score\<close>, placements \<^verbatim>\<open>course_navigation\<close>
  twice and the flag present: the double toggle of the absent scope \<^verbatim>\<open>result\<close>, of the last
  scope \<^verbatim>\<open>score\<close>, of the absent placement \<^verbatim>\<open>account_navigation\<close> and of the flag give the
  snapshot back; \<^verbatim>\<open>lineitem\<close> moves behind \<^verbatim>\<open>score\<close>, and the doubled placement is left once.
\<close>

theorem toggle_twice_witness:
  "permissions_obj.scopes (permissions sample_state) = Some [''lineitem'', ''score''] \<and>
   placements_obj.placements (Lti1p3RegistrationOverlayState.placements sample_state) =
     Some [''course_navigation'', ''course_navigation''] \<and>
   courseNavigationDefaultDisabled (Lti1p3RegistrationOverlayState.placements sample_state) =
     Some False \<and>
   toggleScope ''result'' (toggleScope ''result'' sample_state) = sample_state \<and>
   toggleScope ''score'' (toggleScope ''score'' sample_state) = sample_state \<and>
   scope_list (toggleScope ''lineitem'' (toggleScope ''lineitem'' sample_state)) =
     [''score'', ''lineitem''] \<and>
   togglePlacement ''account_navigation'' (togglePlacement ''account_navigation'' sample_state) =
     sample_state \<and>
   placement_list
     (togglePlacement ''course_navigation'' (togglePlacement ''course_navigation'' sample_state)) =
     [''course_navigation''] \<and>
   toggleCourseNavigationDefaultDisabled (toggleCourseNavigationDefaultDisabled sample_state) =
     sample_state"
  using sample_scopes sample_placements sample_flag
    toggle_twice [where s = sample_state and scope = "''result''"
      and kind = "''account_navigation''"]
    toggle_twice [where s = sample_state and scope = "''score''"
      and kind = "''course_navigation''"]
    toggle_twice [where s = sample_state and scope = "''lineitem''"
      and kind = "''course_navigation''"]
  by (simp add: scope_list_def placement_list_def)

text \<open>
  The claim as stated fails where the toggled entry is present and not the last one: the
  sample snapshot lists \<^verbatim>\<open>lineitem\<close> before \<^verbatim>\<open>score\<close>, and toggling \<^verbatim>\<open>lineitem\<close> twice
  leaves it after \<^verbatim>\<open>score\<close>.
\<close>

theorem toggle_twice_counterexample:
  "toggleScope ''lineitem'' (toggleScope ''lineitem'' sample_state) \<noteq> sample_state"
  by (simp add: toggleScope_twice toggle_in_list_def sample_defs)

subsection \<open>Duplicate-free lists\<close>

text \<open>
  C7: when neither \<^verbatim>\<open>permissions.scopes\<close> nor \<^verbatim>\<open>placements.placements\<close> holds an entry
  twice, the same is true of the snapshot that any of the twelve actions produces.
\<close>

theorem mutator_no_duplicates: "no_duplicates s \<Longrightarrow> no_duplicates (mutator a s)"
  by (cases a)
     (simp_all add: no_duplicates_def scope_list_def placement_list_def mutator_defs
        permissions_toggled_def placements_flag_toggled_def placements_toggled_def
        toggle_in_list_distinct)

text \<open>
  On the snapshot of the one-placement document: adding \<^verbatim>\<open>account_navigation\<close>, removing it
  again, and removing the scope \<^verbatim>\<open>score\<close> all keep the lists free of duplicates.
\<close>

theorem mutator_no_duplicates_witness:
  "no_duplicates single_state \<and>
   no_duplicates (togglePlacement ''account_navigation'' single_state) \<and>
   no_duplicates
     (togglePlacement ''account_navigation''
       (togglePlacement ''account_navigation'' single_state)) \<and>
   no_duplicates (toggleScope ''score'' single_state)"
proof -
  have h: "no_duplicates single_state"
    by (simp add: no_duplicates_def scope_list_def placement_list_def sample_defs)
  have h': "no_duplicates (togglePlacement ''account_navigation'' single_state)"
    using mutator_no_duplicates [OF h, of "TogglePlacement ''account_navigation''"] by simp
  show ?thesis
    using h h' mutator_no_duplicates [OF h', of "TogglePlacement ''account_navigation''"]
      mutator_no_duplicates [OF h, of "ToggleScope ''score''"]
    by simp
qed

subsection \<open>What an action leaves alone\<close>

lemma mutator_section_of:
  "sec \<noteq> target a \<Longrightarrow> section_of (mutator a s) sec = section_of s sec"
  by (cases a; cases sec) (simp_all add: mutator_defs)

lemma mutator_refs_ref:
  "sec \<noteq> target a \<Longrightarrow> section_ref (snd (mutator_refs a (h, r))) sec = section_ref r sec"
  by (cases a; cases sec) (simp_all add: mutator_refs_defs)

lemma mutator_refs_object:
  "sec \<noteq> target a \<Longrightarrow> object_at (fst (mutator_refs a (h, r))) sec b = object_at h sec b"
  by (cases a; cases sec) (simp_all add: mutator_refs_defs)

text \<open>The section an action writes is a new object, and no object allocated before changes.\<close>

lemma mutator_refs_fresh:
  "section_ref (snd (mutator_refs a (h, r))) (target a) = next_ref h"
  by (cases a) (simp_all add: mutator_refs_defs)

lemma mutator_refs_old_objects:
  "b < next_ref h \<Longrightarrow> object_at (fst (mutator_refs a (h, r))) sec b = object_at h sec b"
  by (cases a; cases sec) (simp_all add: mutator_refs_defs)

text \<open>The heap model computes the snapshots of the record model.\<close>

lemma mutator_refs_snapshot:
  "snapshot_of (fst (mutator_refs a (h, r))) (snd (mutator_refs a (h, r))) =
     mutator a (snapshot_of h r)"
  by (cases a) (simp_all add: mutator_refs_defs mutator_defs snapshot_of_def)

text \<open>
  C2: an action changes the one section it targets. Every other top-level section of the new
  snapshot has the value it had before; in the heap model the new snapshot holds, for every
  other section, the very reference the prior snapshot held, and the object behind that
  reference is unchanged. The heap model and the record model agree on the new snapshot.
\<close>

theorem mutator_keeps_other_sections:
  "sec \<noteq> target a \<Longrightarrow>
     section_of (mutator a s) sec = section_of s sec \<and>
     section_ref (snd (mutator_refs a (h, r))) sec = section_ref r sec \<and>
     object_at (fst (mutator_refs a (h, r))) sec (section_ref r sec) =
       object_at h sec (section_ref r sec) \<and>
     snapshot_of (fst (mutator_refs a (h, r))) (snd (mutator_refs a (h, r))) =
       mutator a (snapshot_of h r)"
  by (simp only: mutator_section_of mutator_refs_ref mutator_refs_object mutator_refs_snapshot
      simp_thms)

text \<open>
  Setting the privacy level of the sample snapshot, held in the sample heap: the six other
  sections keep their references 0, 1, 3, 4, 5 and 6, and the permissions keep their value.
\<close>

theorem mutator_keeps_other_sections_witness:
  "Permissions \<noteq> target (SetPrivacyLevel ''anonymous'') \<and>
   section_of (setPrivacyLevel ''anonymous'' sample_state) Permissions =
     section_of sample_state Permissions \<and>
   launchSettings_ref (snd (setPrivacyLevel_refs ''anonymous'' (sample_heap, sample_refs))) = 0 \<and>
   permissions_ref (snd (setPrivacyLevel_refs ''anonymous'' (sample_heap, sample_refs))) = 1 \<and>
   placements_ref (snd (setPrivacyLevel_refs ''anonymous'' (sample_heap, sample_refs))) = 3 \<and>
   override_uris_ref (snd (setPrivacyLevel_refs ''anonymous'' (sample_heap, sample_refs))) = 4 \<and>
   naming_ref (snd (setPrivacyLevel_refs ''anonymous'' (sample_heap, sample_refs))) = 5 \<and>
   icons_ref (snd (setPrivacyLevel_refs ''anonymous'' (sample_heap, sample_refs))) = 6 \<and>
   permissions_at (fst (setPrivacyLevel_refs ''anonymous'' (sample_heap, sample_refs))) 1 =
     permissions_at sample_heap 1"
  using
    mutator_keeps_other_sections
      [of LaunchSettings "SetPrivacyLevel ''anonymous''" sample_state sample_heap sample_refs]
    mutator_keeps_other_sections
      [of Permissions "SetPrivacyLevel ''anonymous''" sample_state sample_heap sample_refs]
    mutator_keeps_other_sections
      [of Placements "SetPrivacyLevel ''anonymous''" sample_state sample_heap sample_refs]
    mutator_keeps_other_sections
      [of Override_uris "SetPrivacyLevel ''anonymous''" sample_state sample_heap sample_refs]
    mutator_keeps_other_sections
      [of Naming "SetPrivacyLevel ''anonymous''" sample_state sample_heap sample_refs]
    mutator_keeps_other_sections
      [of Icons "SetPrivacyLevel ''anonymous''" sample_state sample_heap sample_refs]
  by (simp add: sample_refs_def)

subsection \<open>The initializer: launch settings\<close>

text \<open>
  C3, as amended: the initializer sets \<^verbatim>\<open>launchSettings.redirectURIs\<close> to the redirect URIs
  joined with newline separators whenever the list is present; for the empty list that is the
  empty string. It leaves the field unset only when the list is absent.
\<close>

theorem redirectURIs_joined:
  "(redirect_uris c = Some (x # xs) \<longrightarrow>
      redirectURIs (launchSettings (initialOverlayStateFromInternalConfig f c)) =
        Some (x @ concat (map (\<lambda>y. ''\<newline>'' @ y) xs))) \<and>
   (redirect_uris c = Some [] \<longrightarrow>
      redirectURIs (launchSettings (initialOverlayStateFromInternalConfig f c)) = Some []) \<and>
   (redirect_uris c = None \<longrightarrow>
      redirectURIs (launchSettings (initialOverlayStateFromInternalConfig f c)) = None)"
proof -
  have field: "redirectURIs (launchSettings (initialOverlayStateFromInternalConfig f c)) =
      map_option (join ''\<newline>'') (redirect_uris c)"
    by (simp add: initialOverlayStateFromInternalConfig_def)
  show ?thesis
    unfolding field by (simp add: join_Nil join_Cons)
qed

text \<open>The sample document, and the same document with an empty and with a missing list.\<close>

theorem redirectURIs_joined_witness:
  "redirect_uris sample_config = Some [''https://x.com/a'', ''https://x.com/b''] \<and>
   redirectURIs (launchSettings (initialOverlayStateFromInternalConfig (\<lambda>k. k) sample_config)) =
     Some ''https://x.com/a\<newline>https://x.com/b'' \<and>
   redirect_uris (sample_config\<lparr> redirect_uris := Some [] \<rparr>) = Some [] \<and>
   redirectURIs (launchSettings (initialOverlayStateFromInternalConfig (\<lambda>k. k)
       (sample_config\<lparr> redirect_uris := Some [] \<rparr>))) = Some [] \<and>
   redirect_uris (sample_config\<lparr> redirect_uris := None \<rparr>) = None \<and>
   redirectURIs (launchSettings (initialOverlayStateFromInternalConfig (\<lambda>k. k)
       (sample_config\<lparr> redirect_uris := None \<rparr>))) = None"
proof -
  have h: "redirect_uris sample_config = Some [''https://x.com/a'', ''https://x.com/b'']"
    by (simp add: sample_config_def)
  show ?thesis
    using h
      redirectURIs_joined
        [of sample_config "''https://x.com/a''" "[''https://x.com/b'']" "\<lambda>k. k"]
      redirectURIs_joined [of "sample_config\<lparr> redirect_uris := Some [] \<rparr>" "[]" "[]" "\<lambda>k. k"]
      redirectURIs_joined [of "sample_config\<lparr> redirect_uris := None \<rparr>" "[]" "[]" "\<lambda>k. k"]
    by simp
qed

text \<open>
  The claim as stated fails for the empty list: \<^verbatim>\<open>[].join('\n')\<close> is the empty string, so
  the field is set.
\<close>

theorem redirectURIs_empty_counterexample:
  "redirect_uris (sample_config\<lparr> redirect_uris := Some [] \<rparr>) = Some [] \<and>
   redirectURIs (launchSettings (initialOverlayStateFromInternalConfig (\<lambda>k. k)
       (sample_config\<lparr> redirect_uris := Some [] \<rparr>))) \<noteq> None"
  by (simp add: initialOverlayStateFromInternalConfig_def)

text \<open>
  C4, as amended: the initializer sets \<^verbatim>\<open>launchSettings.JwkMethod\<close> to \<^verbatim>\<open>public_jwk_url\<close>
  exactly when the document's public-key URL is present and not the empty string, and to
  \<^verbatim>\<open>public_jwk\<close> otherwise; the literal public key has no influence on the choice.
\<close>

theorem JwkMethod_by_url:
  "JwkMethod (launchSettings (initialOverlayStateFromInternalConfig f c)) =
     Some (if public_jwk_url c \<noteq> None \<and> public_jwk_url c \<noteq> Some [] then Public_jwk_url
           else Public_jwk) \<and>
   JwkMethod (launchSettings (initialOverlayStateFromInternalConfig f (c\<lparr> public_jwk := k \<rparr>))) =
     JwkMethod (launchSettings (initialOverlayStateFromInternalConfig f c))"
proof -
  have field: "JwkMethod (launchSettings (initialOverlayStateFromInternalConfig f d)) =
      Some (if truthy_string (public_jwk_url d) then Public_jwk_url else Public_jwk)" for d
    by (simp add: initialOverlayStateFromInternalConfig_def)
  have truthy: "truthy_string u \<longleftrightarrow> u \<noteq> None \<and> u \<noteq> Some []" for u
    by (cases u) simp_all
  show ?thesis
    by (simp add: field truthy)
qed

text \<open>
  The sample document has both a key URL and a literal key, and the method is by URL; without
  the URL the method is by literal value.
\<close>

theorem JwkMethod_by_url_witness:
  "public_jwk_url sample_config = Some ''https://x.com/jwks'' \<and>
   public_jwk sample_config = Some ''{}'' \<and>
   JwkMethod (launchSettings (initialOverlayStateFromInternalConfig (\<lambda>k. k) sample_config)) =
     Some Public_jwk_url \<and>
   JwkMethod (launchSettings (initialOverlayStateFromInternalConfig (\<lambda>k. k)
       (sample_config\<lparr> public_jwk_url := None \<rparr>))) = Some Public_jwk"
proof -
  have h: "public_jwk_url sample_config = Some ''https://x.com/jwks''"
    "public_jwk sample_config = Some ''{}''"
    by (simp_all add: sample_config_def)
  show ?thesis
    using h JwkMethod_by_url [of "\<lambda>k. k" sample_config None]
      JwkMethod_by_url [of "\<lambda>k. k" "sample_config\<lparr> public_jwk_url := None \<rparr>" None]
    by simp
qed

text \<open>
  The claim as stated fails for a key URL that is present and empty: the conditional
  \<^verbatim>\<open>internalConfig.public_jwk_url ? ... : ...\<close> reads the empty string as false.
\<close>

theorem JwkMethod_empty_url_counterexample:
  "public_jwk_url (sample_config\<lparr> public_jwk_url := Some [] \<rparr>) \<noteq> None \<and>
   JwkMethod (launchSettings (initialOverlayStateFromInternalConfig (\<lambda>k. k)
       (sample_config\<lparr> public_jwk_url := Some [] \<rparr>))) \<noteq> Some Public_jwk_url"
  by (simp add: initialOverlayStateFromInternalConfig_def)

text \<open>
  C5: when the custom-fields mapping is present, the initializer sets
  \<^verbatim>\<open>launchSettings.customFields\<close> to the concatenation of \<^verbatim>\<open>key=value\n\<close> over the entries of
  the mapping, in the mapping's own iteration order.
\<close>

theorem customFields_serialized:
  "custom_fields c = Some entries \<Longrightarrow>
     customFields (launchSettings (initialOverlayStateFromInternalConfig f c)) =
       Some (concat (map (\<lambda>(key, value). key @ ''='' @ value @ ''\<newline>'') entries))"
proof -
  assume present: "custom_fields c = Some entries"
  then have "customFields (launchSettings (initialOverlayStateFromInternalConfig f c)) =
      Some (foldl customFields_step [] entries)"
    by (simp add: initialOverlayStateFromInternalConfig_def)
  then show ?thesis
    by (simp add: foldl_customFields_step)
qed

text \<open>The mapping \<^verbatim>\<open>{"a":"1","b":"2"}\<close> of the sample document yields \<^verbatim>\<open>a=1\nb=2\n\<close>.\<close>

theorem customFields_serialized_witness:
  "custom_fields sample_config = Some [(''a'', ''1''), (''b'', ''2'')] \<and>
   customFields (launchSettings (initialOverlayStateFromInternalConfig (\<lambda>k. k) sample_config)) =
     Some ''a=1\<newline>b=2\<newline>''"
proof -
  have h: "custom_fields sample_config = Some [(''a'', ''1''), (''b'', ''2'')]"
    by (simp add: sample_config_def)
  show ?thesis
    using h customFields_serialized [OF h, of "\<lambda>k. k"] by simp
qed

subsection \<open>The initializer: placements\<close>

lemma nullish_case: "nullish a b = (case a of Some v \<Rightarrow> v | None \<Rightarrow> b)"
  by (simp split: option.split)

lemma override_uris_foldl:
  "foldl (override_uris_step c) m ps =
     foldl (\<lambda>acc p. acc(placement p \<mapsto>
       \<lparr> override_uri_entry.message_type =
           Some (nullish (InternalPlacementConfiguration.message_type p) ''LtiResourceLinkRequest''),
         uri = Some (nullish (url p) (target_link_uri c)) \<rparr>)) m ps"
  by (rule arg_cong [where f = "\<lambda>g. foldl g m ps"]) (simp add: fun_eq_iff override_uris_step_def)

lemma naming_foldl:
  "foldl (naming_step c) m ps =
     foldl (\<lambda>acc p. acc(placement p \<mapsto> \<lparr> name = Some (nullish (text' p) (title c)) \<rparr>)) m ps"
  by (rule arg_cong [where f = "\<lambda>g. foldl g m ps"]) (simp add: fun_eq_iff naming_step_def)

lemma icons_foldl:
  "foldl icons_step m ps =
     foldl (\<lambda>acc p. acc(placement p \<mapsto>
       \<lparr> icon_entry.icon_url = InternalPlacementConfiguration.icon_url p \<rparr>)) m ps"
  by (rule arg_cong [where f = "\<lambda>g. foldl g m ps"]) (simp add: fun_eq_iff icons_step_def)

text \<open>A record that no record of its kind follows decides the entry stored under its kind.\<close>

lemma override_uris_last:
  "\<forall>q\<in>set ys. placement q \<noteq> placement p \<Longrightarrow>
     foldl (override_uris_step c) m (xs @ p # ys) (placement p) =
       Some \<lparr> override_uri_entry.message_type =
           Some (nullish (InternalPlacementConfiguration.message_type p) ''LtiResourceLinkRequest''),
         uri = Some (nullish (url p) (target_link_uri c)) \<rparr>"
  unfolding override_uris_foldl by (rule foldl_upd_split)

lemma naming_last:
  "\<forall>q\<in>set ys. placement q \<noteq> placement p \<Longrightarrow>
     foldl (naming_step c) m (xs @ p # ys) (placement p) =
       Some \<lparr> name = Some (nullish (text' p) (title c)) \<rparr>"
  unfolding naming_foldl by (rule foldl_upd_split)

lemma icons_last:
  "\<forall>q\<in>set ys. placement q \<noteq> placement p \<Longrightarrow>
     foldl icons_step m (xs @ p # ys) (placement p) =
       Some \<lparr> icon_entry.icon_url = InternalPlacementConfiguration.icon_url p \<rparr>"
  unfolding icons_foldl by (rule foldl_upd_split)

lemma sample_placement_records:
  "InternalLtiConfiguration.placements sample_config = [nav_plain] @ nav_disabled # []"
  "InternalLtiConfiguration.placements sample_config = [] @ nav_plain # [nav_disabled]"
  "InternalLtiConfiguration.placements single_config = [] @ nav_disabled # []"
  by (simp_all add: sample_config_def single_config_def)

text \<open>
  C8, as amended: the initializer sets \<^verbatim>\<open>placements.courseNavigationDefaultDisabled\<close> to
  true if and only if the first placement record for \<^verbatim>\<open>course_navigation\<close> in the document
  has \<^verbatim>\<open>default\<close> equal to \<^verbatim>\<open>disabled\<close>; when that record lacks the flag, or the document has
  no record for \<^verbatim>\<open>course_navigation\<close>, the field is false.
\<close>

theorem courseNavigationDefaultDisabled_first_record:
  "(InternalLtiConfiguration.placements c = xs @ p # ys \<and>
    placement p = ''course_navigation'' \<and>
    (\<forall>q\<in>set xs. placement q \<noteq> ''course_navigation'') \<longrightarrow>
      courseNavigationDefaultDisabled
        (Lti1p3RegistrationOverlayState.placements (initialOverlayStateFromInternalConfig f c)) =
      Some (default p = Some ''disabled'')) \<and>
   ((\<forall>q\<in>set (InternalLtiConfiguration.placements c). placement q \<noteq> ''course_navigation'') \<longrightarrow>
      courseNavigationDefaultDisabled
        (Lti1p3RegistrationOverlayState.placements (initialOverlayStateFromInternalConfig f c)) =
      Some False)"
proof -
  have field: "courseNavigationDefaultDisabled
      (Lti1p3RegistrationOverlayState.placements (initialOverlayStateFromInternalConfig f c)) =
      Some (case List.find (\<lambda>p. placement p = ''course_navigation'')
                   (InternalLtiConfiguration.placements c) of
              Some p \<Rightarrow> default p = Some ''disabled'' | None \<Rightarrow> False)"
    by (simp add: initialOverlayStateFromInternalConfig_def)
  show ?thesis
  proof (intro conjI impI)
    assume "InternalLtiConfiguration.placements c = xs @ p # ys \<and>
      placement p = ''course_navigation'' \<and>
      (\<forall>q\<in>set xs. placement q \<noteq> ''course_navigation'')"
    then have "List.find (\<lambda>p. placement p = ''course_navigation'')
        (InternalLtiConfiguration.placements c) = Some p"
      by (simp add: find_first)
    then show "courseNavigationDefaultDisabled
        (Lti1p3RegistrationOverlayState.placements (initialOverlayStateFromInternalConfig f c)) =
        Some (default p = Some ''disabled'')"
      by (simp add: field)
  next
    assume "\<forall>q\<in>set (InternalLtiConfiguration.placements c). placement q \<noteq> ''course_navigation''"
    then have "List.find (\<lambda>p. placement p = ''course_navigation'')
        (InternalLtiConfiguration.placements c) = None"
      by (simp add: find_none)
    then show "courseNavigationDefaultDisabled
        (Lti1p3RegistrationOverlayState.placements (initialOverlayStateFromInternalConfig f c)) =
        Some False"
      by (simp add: field)
  qed
qed

text \<open>
  A lone record with the flag gives true, the sample document (whose first record lacks the
  flag) gives false, and a document without placement records gives false.
\<close>

theorem courseNavigationDefaultDisabled_first_record_witness:
  "courseNavigationDefaultDisabled
     (Lti1p3RegistrationOverlayState.placements
       (initialOverlayStateFromInternalConfig (\<lambda>k. k) single_config)) = Some True \<and>
   courseNavigationDefaultDisabled
     (Lti1p3RegistrationOverlayState.placements
       (initialOverlayStateFromInternalConfig (\<lambda>k. k) sample_config)) = Some False \<and>
   courseNavigationDefaultDisabled
     (Lti1p3RegistrationOverlayState.placements
       (initialOverlayStateFromInternalConfig (\<lambda>k. k)
         (sample_config\<lparr> InternalLtiConfiguration.placements := [] \<rparr>))) = Some False"
  using sample_placement_records
    courseNavigationDefaultDisabled_first_record
      [of single_config "[]" nav_disabled "[]" "\<lambda>k. k"]
    courseNavigationDefaultDisabled_first_record
      [of sample_config "[]" nav_plain "[nav_disabled]" "\<lambda>k. k"]
    courseNavigationDefaultDisabled_first_record
      [of "sample_config\<lparr> InternalLtiConfiguration.placements := [] \<rparr>" "[]" nav_plain "[]" "\<lambda>k. k"]
  by (simp add: nav_plain_def nav_disabled_def)

text \<open>
  The claim as stated fails when the flagged record is not the first of its kind: the sample
  document contains a record for \<^verbatim>\<open>course_navigation\<close> with the flag set, after one without,
  and the field is false.
\<close>

theorem courseNavigationDefaultDisabled_counterexample:
  "nav_disabled \<in> set (InternalLtiConfiguration.placements sample_config) \<and>
   placement nav_disabled = ''course_navigation'' \<and>
   default nav_disabled = Some ''disabled'' \<and>
   courseNavigationDefaultDisabled
     (Lti1p3RegistrationOverlayState.placements
       (initialOverlayStateFromInternalConfig (\<lambda>k. k) sample_config)) \<noteq> Some True"
  by (simp add: sample_defs)

text \<open>
  When the placement kinds of the document are pairwise different, every record decides the
  \<^verbatim>\<open>override_uris\<close> entry of its kind.
\<close>

lemma override_uris_distinct_kinds:
  assumes "distinct (map placement (InternalLtiConfiguration.placements c))"
    and "p \<in> set (InternalLtiConfiguration.placements c)"
  shows "override_uris_obj.placements (override_uris (initialOverlayStateFromInternalConfig f c))
       (placement p) =
     Some \<lparr> override_uri_entry.message_type =
              Some (case InternalPlacementConfiguration.message_type p of
                      Some m \<Rightarrow> m | None \<Rightarrow> ''LtiResourceLinkRequest''),
            uri = Some (case url p of Some u \<Rightarrow> u | None \<Rightarrow> target_link_uri c) \<rparr>"
proof -
  from assms(2) obtain xs ys where
    split: "InternalLtiConfiguration.placements c = xs @ p # ys"
    by (auto dest: split_list)
  with assms(1) have later: "\<forall>q\<in>set ys. placement q \<noteq> placement p"
    by (auto simp: image_iff)
  show ?thesis
    using override_uris_last [OF later, of c Map.empty xs]
    by (simp add: initialOverlayStateFromInternalConfig_def split nullish_case)
qed

text \<open>
  C9, as amended: for every placement record of the document that no later record of the same
  placement kind follows, the \<^verbatim>\<open>override_uris\<close> entry for the record's kind has
  \<^verbatim>\<open>message_type\<close> equal to the record's message type, or \<^verbatim>\<open>LtiResourceLinkRequest\<close> when the
  record has none, and \<^verbatim>\<open>uri\<close> equal to the record's URL, or the document's target link URI
  when the record has none.
\<close>

theorem override_uris_last_record:
  "InternalLtiConfiguration.placements c = xs @ p # ys \<Longrightarrow>
   \<forall>q\<in>set ys. placement q \<noteq> placement p \<Longrightarrow>
     override_uris_obj.placements (override_uris (initialOverlayStateFromInternalConfig f c))
       (placement p) =
     Some \<lparr> override_uri_entry.message_type =
              Some (case InternalPlacementConfiguration.message_type p of
                      Some m \<Rightarrow> m | None \<Rightarrow> ''LtiResourceLinkRequest''),
            uri = Some (case url p of Some u \<Rightarrow> u | None \<Rightarrow> target_link_uri c) \<rparr>"
proof -
  assume split: "InternalLtiConfiguration.placements c = xs @ p # ys"
    and later: "\<forall>q\<in>set ys. placement q \<noteq> placement p"
  show ?thesis
    using override_uris_last [OF later, of c Map.empty xs]
    by (simp add: initialOverlayStateFromInternalConfig_def split nullish_case)
qed

text \<open>
  A lone record with its own message type and URL, and a lone record with neither, which
  gets the two defaults.
\<close>

theorem override_uris_last_record_witness:
  "override_uris_obj.placements
     (override_uris (initialOverlayStateFromInternalConfig (\<lambda>k. k) single_config))
     ''course_navigation'' =
   Some \<lparr> override_uri_entry.message_type = Some ''LtiDeepLinkingRequest'',
          uri = Some ''https://x.com/nav'' \<rparr> \<and>
   override_uris_obj.placements
     (override_uris (initialOverlayStateFromInternalConfig (\<lambda>k. k)
       (sample_config\<lparr> InternalLtiConfiguration.placements := [nav_plain] \<rparr>)))
     ''course_navigation'' =
   Some \<lparr> override_uri_entry.message_type = Some ''LtiResourceLinkRequest'',
          uri = Some ''https://x.com/launch'' \<rparr>"
proof -
  have none_later: "\<forall>q\<in>set ([] :: InternalPlacementConfiguration list).
      placement q \<noteq> placement nav_disabled"
    "\<forall>q\<in>set ([] :: InternalPlacementConfiguration list). placement q \<noteq> placement nav_plain"
    by simp_all
  have plain: "InternalLtiConfiguration.placements
      (sample_config\<lparr> InternalLtiConfiguration.placements := [nav_plain] \<rparr>) =
      [] @ nav_plain # []"
    by simp
  show ?thesis
    using
      override_uris_last_record [OF sample_placement_records(3) none_later(1), of "\<lambda>k. k"]
      override_uris_last_record [OF plain none_later(2), of "\<lambda>k. k"]
    by (simp add: nav_plain_def nav_disabled_def single_config_def sample_config_def)
qed

text \<open>
  The claim as stated fails for a record that a later record of the same kind follows: the
  first record of the sample document has no message type and no URL, and the entry for its
  kind is not the pair of defaults.
\<close>

theorem override_uris_counterexample:
  "nav_plain \<in> set (InternalLtiConfiguration.placements sample_config) \<and>
   InternalPlacementConfiguration.message_type nav_plain = None \<and>
   url nav_plain = None \<and>
   override_uris_obj.placements
     (override_uris (initialOverlayStateFromInternalConfig (\<lambda>k. k) sample_config))
     (placement nav_plain) \<noteq>
   Some \<lparr> override_uri_entry.message_type = Some ''LtiResourceLinkRequest'',
          uri = Some (target_link_uri sample_config) \<rparr>"
  by (simp add: sample_defs override_uris_step_def)

text \<open>
  C10: when the document has records of one placement kind (two or more, or just one), the
  initializer's \<^verbatim>\<open>override_uris\<close>, \<^verbatim>\<open>naming.placements\<close> and \<^verbatim>\<open>icons.placements\<close> entries for that
  kind take their values from the record of the kind that comes last in the list.
\<close>

theorem last_record_wins:
  "filter (\<lambda>q. placement q = kind) (InternalLtiConfiguration.placements c) \<noteq> [] \<Longrightarrow>
   p = last (filter (\<lambda>q. placement q = kind) (InternalLtiConfiguration.placements c)) \<Longrightarrow>
     override_uris_obj.placements (override_uris (initialOverlayStateFromInternalConfig f c)) kind =
       Some \<lparr> override_uri_entry.message_type =
                Some (case InternalPlacementConfiguration.message_type p of
                        Some m \<Rightarrow> m | None \<Rightarrow> ''LtiResourceLinkRequest''),
              uri = Some (case url p of Some u \<Rightarrow> u | None \<Rightarrow> target_link_uri c) \<rparr> \<and>
     naming_obj.placements (naming (initialOverlayStateFromInternalConfig f c)) kind =
       Some \<lparr> name = Some (case text' p of Some t \<Rightarrow> t | None \<Rightarrow> title c) \<rparr> \<and>
     icons_obj.placements (icons (initialOverlayStateFromInternalConfig f c)) kind =
       Some \<lparr> icon_entry.icon_url = InternalPlacementConfiguration.icon_url p \<rparr>"
proof -
  assume ne: "filter (\<lambda>q. placement q = kind) (InternalLtiConfiguration.placements c) \<noteq> []"
    and p: "p = last (filter (\<lambda>q. placement q = kind) (InternalLtiConfiguration.placements c))"
  from last_filter_split [OF ne] p obtain xs ys where
    split: "InternalLtiConfiguration.placements c = xs @ p # ys"
    and later: "\<forall>q\<in>set ys. placement q \<noteq> kind" and kind: "placement p = kind"
    by blast
  from later kind have later': "\<forall>q\<in>set ys. placement q \<noteq> placement p"
    by simp
  show ?thesis
    using override_uris_last [OF later', of c Map.empty xs]
      naming_last [OF later', of c Map.empty xs] icons_last [OF later', of Map.empty xs]
    by (simp add: initialOverlayStateFromInternalConfig_def split kind nullish_case)
qed

text \<open>
  The sample document has two records for \<^verbatim>\<open>course_navigation\<close>; the three entries carry the
  values of the second.
\<close>

theorem last_record_wins_witness:
  "length (filter (\<lambda>q. placement q = ''course_navigation'')
      (InternalLtiConfiguration.placements sample_config)) = 2 \<and>
   last (filter (\<lambda>q. placement q = ''course_navigation'')
      (InternalLtiConfiguration.placements sample_config)) = nav_disabled \<and>
   override_uris_obj.placements
     (override_uris (initialOverlayStateFromInternalConfig (\<lambda>k. k) sample_config))
     ''course_navigation'' =
   Some \<lparr> override_uri_entry.message_type = Some ''LtiDeepLinkingRequest'',
          uri = Some ''https://x.com/nav'' \<rparr> \<and>
   naming_obj.placements
     (naming (initialOverlayStateFromInternalConfig (\<lambda>k. k) sample_config))
     ''course_navigation'' = Some \<lparr> name = Some ''Navigation'' \<rparr> \<and>
   icons_obj.placements
     (icons (initialOverlayStateFromInternalConfig (\<lambda>k. k) sample_config))
     ''course_navigation'' = Some \<lparr> icon_entry.icon_url = Some ''https://x.com/icon.png'' \<rparr>"
proof -
  have f: "filter (\<lambda>q. placement q = ''course_navigation'')
      (InternalLtiConfiguration.placements sample_config) = [nav_plain, nav_disabled]"
    by (simp add: sample_config_def nav_plain_def nav_disabled_def)
  have ne: "filter (\<lambda>q. placement q = ''course_navigation'')
      (InternalLtiConfiguration.placements sample_config) \<noteq> []"
    by (simp add: f)
  have l: "nav_disabled = last (filter (\<lambda>q. placement q = ''course_navigation'')
      (InternalLtiConfiguration.placements sample_config))"
    by (simp add: f)
  show ?thesis
    using last_record_wins [OF ne l, of "\<lambda>k. k"]
    by (simp add: f nav_disabled_def)
qed

end
